theory Spec2Isabelle
  imports Complex_Main
begin

section \<open>The mini load balancer for prefill and decode servers\<close>

text \<open>
  A shallow embedding of \<^verbatim>\<open>python/sglang/srt/disaggregation/mini_lb.py\<close>.
  Python exceptions are values of the type \<open>exn\<close> on the left of a sum; the mutable
  balancer object is a record that every method takes and returns; the pseudo-random
  generator is a stream of raw draws; every backend call and every write to an admin flag
  is recorded, in program order, in a list of events.
\<close>

subsection \<open>Values: JSON documents and Python dictionaries\<close>

text \<open>
  A request body after parsing is a Python object built from \<open>None\<close>, \<open>bool\<close>,
  \<open>int\<close>, \<open>float\<close>, \<open>str\<close>, \<open>list\<close> and \<open>dict\<close>. A dictionary is an association
  list in insertion order, its keys pairwise distinct. A string is the list of its
  characters.
\<close>

datatype json =
    JNull
  | JBool bool
  | JInt int
  | JFloat rat
  | JString string
  | JArray "json list"
  | JObject "(string \<times> json) list"

type_synonym dict = "(string \<times> json) list"

datatype exn =
    IndexError
  | TypeError
  | KeyError
  | AssertionError
  | ClientError
  | ContentTypeError
  | HTTPException int string

text \<open>\<open>d[k] = v\<close>: an existing key keeps its place, a new key goes to the end.\<close>

fun dict_setitem :: "string \<Rightarrow> json \<Rightarrow> dict \<Rightarrow> dict" where
  "dict_setitem k v [] = [(k, v)]"
| "dict_setitem k v ((k', v') # d) =
     (if k' = k then (k, v) # d else (k', v') # dict_setitem k v d)"

text \<open>\<open>d.update(other)\<close>: the items of \<open>other\<close> are stored one by one, in its order.\<close>

fun dict_update :: "dict \<Rightarrow> dict \<Rightarrow> dict" where
  "dict_update d [] = d"
| "dict_update d ((k, v) # other) = dict_update (dict_setitem k v d) other"

text \<open>
  \<open>d.get(k)\<close> is \<open>None\<close> for a missing key, and \<open>JNull\<close> is Python's \<open>None\<close>:
  both cases are \<open>JNull\<close> here, as the source cannot tell them apart.
\<close>

definition dict_get :: "dict \<Rightarrow> string \<Rightarrow> json" where
  "dict_get d k = (case map_of d k of None \<Rightarrow> JNull | Some v \<Rightarrow> v)"

text \<open>\<open>d.get(k, default)\<close>.\<close>

definition dict_get_default :: "dict \<Rightarrow> string \<Rightarrow> json \<Rightarrow> json" where
  "dict_get_default d k dflt = (case map_of d k of None \<Rightarrow> dflt | Some v \<Rightarrow> v)"

text \<open>\<open>isinstance(x, int)\<close>: \<open>bool\<close> is a subclass of \<open>int\<close>.\<close>

fun isinstance_int :: "json \<Rightarrow> bool" where
  "isinstance_int (JInt _) = True"
| "isinstance_int (JBool _) = True"
| "isinstance_int _ = False"

text \<open>\<open>isinstance(x, str)\<close>.\<close>

fun isinstance_str :: "json \<Rightarrow> bool" where
  "isinstance_str (JString _) = True"
| "isinstance_str _ = False"

text \<open>\<open>len(x)\<close>: defined on strings, lists and dictionaries, a \<open>TypeError\<close> elsewhere.\<close>

fun py_len :: "json \<Rightarrow> exn + nat" where
  "py_len (JString s) = Inr (length s)"
| "py_len (JArray xs) = Inr (length xs)"
| "py_len (JObject d) = Inr (length d)"
| "py_len _ = Inl TypeError"

text \<open>
  \<open>x[0]\<close>: the first element of a list or the first character of a string, an
  \<open>IndexError\<close> when it is empty; a dictionary parsed from JSON has string keys only, so
  the key \<open>0\<close> is a \<open>KeyError\<close>; the other types are not subscriptable.
\<close>

fun py_first :: "json \<Rightarrow> exn + json" where
  "py_first (JArray []) = Inl IndexError"
| "py_first (JArray (x # xs)) = Inr x"
| "py_first (JString []) = Inl IndexError"
| "py_first (JString (c # cs)) = Inr (JString [c])"
| "py_first (JObject d) = Inl KeyError"
| "py_first _ = Inl TypeError"

text \<open>Truth value of an object, as \<open>if x:\<close> tests it.\<close>

fun py_truthy :: "json \<Rightarrow> bool" where
  "py_truthy JNull = False"
| "py_truthy (JBool b) = b"
| "py_truthy (JInt i) = (i \<noteq> 0)"
| "py_truthy (JFloat r) = (r \<noteq> 0)"
| "py_truthy (JString s) = (s \<noteq> [])"
| "py_truthy (JArray xs) = (xs \<noteq> [])"
| "py_truthy (JObject d) = (d \<noteq> [])"

subsection \<open>The pseudo-random generator\<close>

text \<open>
  The module \<open>random\<close> is a stream of raw draws. \<open>randbelow n\<close> takes the next draw
  into \<open>[0, n)\<close>; \<open>random.choice\<close> and \<open>random.randint\<close> are built on it as in the
  standard library.
\<close>

type_synonym rng = "nat \<Rightarrow> nat"

definition rng_next :: "rng \<Rightarrow> rng" where
  "rng_next g = (\<lambda>i. g (Suc i))"

definition randbelow :: "nat \<Rightarrow> rng \<Rightarrow> nat \<times> rng" where
  "randbelow n g = (g 0 mod n, rng_next g)"

definition choice :: "'a list \<Rightarrow> rng \<Rightarrow> (exn + 'a) \<times> rng" where
  "choice xs g =
     (if xs = [] then (Inl IndexError, g)
      else (case randbelow (length xs) g of (k, g') \<Rightarrow> (Inr (xs ! k), g')))"

text \<open>\<open>random.randint(lo, hi)\<close> for \<open>lo \<le> hi\<close>.\<close>

definition randint :: "int \<Rightarrow> int \<Rightarrow> rng \<Rightarrow> int \<times> rng" where
  "randint lo hi g =
     (case randbelow (nat (hi - lo + 1)) g of (k, g') \<Rightarrow> (lo + int k, g'))"

subsection \<open>The balancer and the pair selector\<close>

record PrefillConfig =
  url :: string
  bootstrap_port :: int

text \<open>
  The counter starts at \<open>0\<close> and is only ever assigned a remainder, so it is a natural
  number.
\<close>

record MiniLoadBalancer =
  prefill_configs :: "PrefillConfig list"
  prefill_servers :: "string list"
  decode_servers :: "string list"
  profiling :: bool
  recording :: bool
  round_robin_counter :: nat

definition MiniLoadBalancer_init :: "PrefillConfig list \<Rightarrow> string list \<Rightarrow> MiniLoadBalancer" where
  "MiniLoadBalancer_init pcs ds =
     \<lparr>prefill_configs = pcs, prefill_servers = map url pcs, decode_servers = ds,
      profiling = False, recording = False, round_robin_counter = 0\<rparr>"

text \<open>
  \<open>select_pair\<close>: the prefill entry under the counter (an \<open>IndexError\<close> when there is
  none), then the counter moves on, then a decode server is drawn. The counter has
  already moved when the draw fails on an empty decode pool.
\<close>

definition select_pair ::
  "MiniLoadBalancer \<Rightarrow> rng \<Rightarrow> (exn + string \<times> int \<times> string) \<times> MiniLoadBalancer \<times> rng" where
  "select_pair lb g =
     (if round_robin_counter lb < length (prefill_configs lb) then
        (let prefill_config = prefill_configs lb ! round_robin_counter lb;
             lb' = lb\<lparr>round_robin_counter :=
                       (round_robin_counter lb + 1) mod length (prefill_configs lb)\<rparr>
         in (case choice (decode_servers lb') g of
               (Inl e, g') \<Rightarrow> (Inl e, lb', g')
             | (Inr decode_server, g') \<Rightarrow>
                 (Inr (url prefill_config, bootstrap_port prefill_config, decode_server),
                  lb', g')))
      else (Inl IndexError, lb, g))"

text \<open>\<open>n\<close> calls of \<open>select_pair\<close> one after the other, with the results in call order.\<close>

fun select_pairs ::
  "nat \<Rightarrow> MiniLoadBalancer \<Rightarrow> rng \<Rightarrow>
   (exn + string \<times> int \<times> string) list \<times> MiniLoadBalancer \<times> rng" where
  "select_pairs 0 lb g = ([], lb, g)"
| "select_pairs (Suc n) lb g =
     (case select_pair lb g of
        (r, lb1, g1) \<Rightarrow>
          (case select_pairs n lb1 g1 of (rs, lb2, g2) \<Rightarrow> (r # rs, lb2, g2)))"

text \<open>The prefill part of a result: the URL and the bootstrap port.\<close>

definition prefill_of :: "exn + string \<times> int \<times> string \<Rightarrow> (string \<times> int) option" where
  "prefill_of r = (case r of Inl e \<Rightarrow> None | Inr (u, p, d) \<Rightarrow> Some (u, p))"

subsection \<open>Library functions the module calls\<close>

text \<open>
  What the module takes from its libraries without defining it is a parameter:
  \<open>urllib.parse.urlparse(u).hostname\<close> (a string or \<open>None\<close>), \<open>str(e)\<close> of an
  exception, and \<open>orjson.dumps\<close>, which returns the bytes of a document or raises.
\<close>

record library =
  urlparse_hostname :: "string \<Rightarrow> string option"
  str_exn :: "exn \<Rightarrow> string"
  orjson_dumps :: "json \<Rightarrow> exn + string"

definition hostname_json :: "string option \<Rightarrow> json" where
  "hostname_json h = (case h of None \<Rightarrow> JNull | Some s \<Rightarrow> JString s)"

text \<open>\<open>str(n)\<close> of an integer, for the f-strings.\<close>

fun str_nat :: "nat \<Rightarrow> string" where
  "str_nat n =
     (if n < 10 then [''0123456789'' ! n]
      else str_nat (n div 10) @ [''0123456789'' ! (n mod 10)])"

definition str_int :: "int \<Rightarrow> string" where
  "str_int i = (if i < 0 then ''-'' @ str_nat (nat (- i)) else str_nat (nat i))"

subsection \<open>Backend calls and events\<close>

text \<open>
  A call is a POST (with the JSON body when one is passed) or a GET. The backends are a
  function from the position of a call among the calls of one operation, and the call, to
  its outcome: a transport fault, which the client library raises as an exception, or a
  response. A response has its status, its body parsed as JSON (\<open>None\<close> when
  \<open>response.json()\<close> raises) and, for a streamed body, its chunks and whether reading
  fails after them.
\<close>

datatype http_call = POST string "dict option" | GET string

record response =
  status :: int
  json_body :: "json option"
  content :: "string list"
  content_fault :: bool

datatype outcome = Fault | Responded response

type_synonym network = "nat \<Rightarrow> http_call \<Rightarrow> outcome"

text \<open>
  The events of one operation, in program order: a call issued to a backend, a write to
  an admin flag, the release of a response.
\<close>

datatype event =
    Call http_call
  | SetProfiling bool
  | SetRecording bool
  | Release string

text \<open>
  \<open>asyncio.gather(*tasks)\<close>: every task is started; the results come in task order, and
  a fault of any task is raised.
\<close>

fun gather :: "outcome list \<Rightarrow> exn + response list" where
  "gather [] = Inr []"
| "gather (Fault # os) = Inl ClientError"
| "gather (Responded r # os) =
     (case gather os of Inl e \<Rightarrow> Inl e | Inr rs \<Rightarrow> Inr (r # rs))"

text \<open>The outcomes of a list of calls, the \<open>i\<close>-th call at position \<open>i\<close>.\<close>

definition outcomes :: "network \<Rightarrow> http_call list \<Rightarrow> outcome list" where
  "outcomes net calls = map (\<lambda>i. net i (calls ! i)) [0..<length calls]"

subsection \<open>Administrative fan-out\<close>

record admin_result =
  success :: bool
  message :: string

text \<open>
  The block every admin method repeats: a POST to \<open>server + path\<close> for each server of
  \<open>chain(prefill_servers, decode_servers)\<close>, all gathered, and
  \<open>all(response.status == 200 for response in responses)\<close> choosing between the two
  messages.
\<close>

definition admin_calls :: "MiniLoadBalancer \<Rightarrow> string \<Rightarrow> http_call list" where
  "admin_calls lb path =
     map (\<lambda>server. POST (server @ path) None) (prefill_servers lb @ decode_servers lb)"

definition post_all ::
  "network \<Rightarrow> MiniLoadBalancer \<Rightarrow> string \<Rightarrow> (exn + response list) \<times> event list" where
  "post_all net lb path =
     (let tasks = admin_calls lb path
      in (gather (outcomes net tasks), map Call tasks))"

definition all_status_200 :: "response list \<Rightarrow> bool" where
  "all_status_200 responses = list_all (\<lambda>response. status response = 200) responses"

definition broadcast ::
  "network \<Rightarrow> MiniLoadBalancer \<Rightarrow> string \<Rightarrow> string \<Rightarrow> string \<Rightarrow>
   (exn + admin_result) \<times> event list" where
  "broadcast net lb path ok_message fail_message =
     (case post_all net lb path of
        (Inl e, evs) \<Rightarrow> (Inl e, evs)
      | (Inr responses, evs) \<Rightarrow>
          (let success = all_status_200 responses
           in (Inr \<lparr>success = success,
                    message = (if success then ok_message else fail_message)\<rparr>, evs)))"

definition start_profile ::
  "network \<Rightarrow> MiniLoadBalancer \<Rightarrow> (exn + admin_result) \<times> MiniLoadBalancer \<times> event list" where
  "start_profile net lb =
     (if profiling lb then
        (Inr \<lparr>success = False, message = ''Profiling is already in progress''\<rparr>, lb, [])
      else
        (let lb' = lb\<lparr>profiling := True\<rparr>
         in (case broadcast net lb' ''/start_profile''
                    ''Profiling started'' ''Failed to start profiling'' of
               (r, evs) \<Rightarrow> (r, lb', SetProfiling True # evs))))"

definition stop_profile ::
  "network \<Rightarrow> MiniLoadBalancer \<Rightarrow> (exn + admin_result) \<times> MiniLoadBalancer \<times> event list" where
  "stop_profile net lb =
     (if \<not> profiling lb then
        (Inr \<lparr>success = False, message = ''Profiling is not in progress''\<rparr>, lb, [])
      else
        (let lb' = lb\<lparr>profiling := False\<rparr>
         in (case broadcast net lb' ''/stop_profile''
                    ''Profiling stopped'' ''Failed to stop profiling'' of
               (r, evs) \<Rightarrow> (r, lb', SetProfiling False # evs))))"

definition start_expert_distribution_record ::
  "network \<Rightarrow> MiniLoadBalancer \<Rightarrow> (exn + admin_result) \<times> MiniLoadBalancer \<times> event list" where
  "start_expert_distribution_record net lb =
     (if recording lb then
        (Inr \<lparr>success = False, message = ''Recoding is already in progress''\<rparr>, lb, [])
      else
        (let lb' = lb\<lparr>recording := True\<rparr>
         in (case broadcast net lb' ''/start_expert_distribution_record''
                    ''Recording expert distribution started''
                    ''Failed to start recording expert distribution'' of
               (r, evs) \<Rightarrow> (r, lb', SetRecording True # evs))))"

definition stop_expert_distribution_record ::
  "network \<Rightarrow> MiniLoadBalancer \<Rightarrow> (exn + admin_result) \<times> MiniLoadBalancer \<times> event list" where
  "stop_expert_distribution_record net lb =
     (if \<not> recording lb then
        (Inr \<lparr>success = False, message = ''Recoding is not in progress''\<rparr>, lb, [])
      else
        (let lb' = lb\<lparr>recording := False\<rparr>
         in (case broadcast net lb' ''/stop_expert_distribution_record''
                    ''Recording expert distribution stopped''
                    ''Failed to stop recording expert distribution'' of
               (r, evs) \<Rightarrow> (r, lb', SetRecording False # evs))))"

definition dump_expert_distribution_record ::
  "network \<Rightarrow> MiniLoadBalancer \<Rightarrow> (exn + admin_result) \<times> MiniLoadBalancer \<times> event list" where
  "dump_expert_distribution_record net lb =
     (case broadcast net lb ''/dump_expert_distribution_record''
             ''Dumping expert distribution succeed''
             ''Failed to dumping expert distribution'' of
        (r, evs) \<Rightarrow> (r, lb, evs))"

definition eplb_rebalance ::
  "network \<Rightarrow> MiniLoadBalancer \<Rightarrow> (exn + admin_result) \<times> MiniLoadBalancer \<times> event list" where
  "eplb_rebalance net lb =
     (case broadcast net lb ''/eplb_rebalance''
             ''EPLB rebalanced'' ''Failed to rebalancing EPLB.'' of
        (r, evs) \<Rightarrow> (r, lb, evs))"

definition eplb_save_expert_distribution ::
  "network \<Rightarrow> MiniLoadBalancer \<Rightarrow> (exn + admin_result) \<times> MiniLoadBalancer \<times> event list" where
  "eplb_save_expert_distribution net lb =
     (case broadcast net lb ''/eplb_save_expert_distribution''
             ''Saving expert distribution succeed''
             ''Failed to saving expert distribution.'' of
        (r, evs) \<Rightarrow> (r, lb, evs))"

subsection \<open>Dual dispatch\<close>

text \<open>
  A JSON response has its content and its status. A streaming response has the chunks
  it yields and, when the generator behind it ends by raising, the exception.
\<close>

datatype http_response =
    ORJSONResponse json int
  | StreamingResponse "string list" "exn option"

text \<open>
  \<open>ORJSONResponse(content=j, status_code=s)\<close>: the constructor renders the content
  with \<open>orjson.dumps\<close>, so an exception of the serialiser is raised where the response
  is built.
\<close>

definition make_ORJSONResponse :: "library \<Rightarrow> json \<Rightarrow> int \<Rightarrow> exn + http_response" where
  "make_ORJSONResponse lib j s =
     (case orjson_dumps lib j of
        Inl e \<Rightarrow> Inl e
      | Inr rendered \<Rightarrow> Inr (ORJSONResponse j s))"

text \<open>
  \<open>assert endpoint[0] != "/"\<close>: an \<open>IndexError\<close> on the empty string, an
  \<open>AssertionError\<close> on a leading slash.
\<close>

definition check_endpoint :: "string \<Rightarrow> exn option" where
  "check_endpoint endpoint =
     (case endpoint of
        [] \<Rightarrow> Some IndexError
      | c # cs \<Rightarrow> if c = CHR ''/'' then Some AssertionError else None)"

text \<open>The two legs of a dispatch: the prefill call first, the decode call second.\<close>

definition dispatch_calls :: "dict \<Rightarrow> string \<Rightarrow> string \<Rightarrow> string \<Rightarrow> http_call list" where
  "dispatch_calls modified_request prefill_server decode_server endpoint =
     [POST (prefill_server @ ''/'' @ endpoint) (Some modified_request),
      POST (decode_server @ ''/'' @ endpoint) (Some modified_request)]"

text \<open>
  \<open>generate\<close>: both legs are gathered, then the response is built from
  \<open>decode_response.json()\<close> and \<open>decode_response.status\<close>.
\<close>

definition generate ::
  "library \<Rightarrow> network \<Rightarrow> dict \<Rightarrow> string \<Rightarrow> string \<Rightarrow> string \<Rightarrow>
   (exn + http_response) \<times> event list" where
  "generate lib net modified_request prefill_server decode_server endpoint =
     (case check_endpoint endpoint of
        Some e \<Rightarrow> (Inl e, [])
      | None \<Rightarrow>
          (let tasks = dispatch_calls modified_request prefill_server decode_server endpoint
           in (case gather (outcomes net tasks) of
                 Inl e \<Rightarrow> (Inl e, map Call tasks)
               | Inr responses \<Rightarrow>
                   (let decode_response = responses ! 1
                    in (case json_body decode_response of
                          None \<Rightarrow> (Inl ContentTypeError, map Call tasks)
                        | Some j \<Rightarrow>
                            (make_ORJSONResponse lib j (status decode_response),
                             map Call tasks))))))"

text \<open>
  \<open>generate_stream\<close>: the chunks of the decode response are passed on; an exception in
  the \<open>try\<close> block becomes one last \<open>data:\<close> chunk, unless serialising that chunk
  raises in its turn, which ends the generator with the exception; the prefill response
  is released in the \<open>finally\<close> block when the gather has returned it.
\<close>

definition error_chunk :: "library \<Rightarrow> exn \<Rightarrow> exn + string" where
  "error_chunk lib e =
     (case orjson_dumps lib
             (JObject [(''error'',
                JObject [(''message'',
                  JString (''Stream processing error: '' @ str_exn lib e))])]) of
        Inl e' \<Rightarrow> Inl e'
      | Inr rendered \<Rightarrow> Inr (''data: '' @ rendered @ [CHR 0x0A, CHR 0x0A]))"

text \<open>The chunks already yielded, followed by the error chunk for \<open>e\<close>.\<close>

definition stream_with_error :: "library \<Rightarrow> string list \<Rightarrow> exn \<Rightarrow> http_response" where
  "stream_with_error lib chunks e =
     (case error_chunk lib e of
        Inl e' \<Rightarrow> StreamingResponse chunks (Some e')
      | Inr chunk \<Rightarrow> StreamingResponse (chunks @ [chunk]) None)"

definition generate_stream ::
  "library \<Rightarrow> network \<Rightarrow> dict \<Rightarrow> string \<Rightarrow> string \<Rightarrow> string \<Rightarrow>
   (exn + http_response) \<times> event list" where
  "generate_stream lib net modified_request prefill_server decode_server endpoint =
     (case check_endpoint endpoint of
        Some e \<Rightarrow> (Inl e, [])
      | None \<Rightarrow>
          (let tasks = dispatch_calls modified_request prefill_server decode_server endpoint
           in (case gather (outcomes net tasks) of
                 Inl e \<Rightarrow> (Inr (stream_with_error lib [] e), map Call tasks)
               | Inr responses \<Rightarrow>
                   (let decode_response = responses ! 1
                    in (Inr (if content_fault decode_response
                             then stream_with_error lib (content decode_response) ClientError
                             else StreamingResponse (content decode_response) None),
                        map Call tasks @ [Release prefill_server])))))"

subsection \<open>Bootstrap metadata\<close>

definition generate_bootstrap_room :: "rng \<Rightarrow> int \<times> rng" where
  "generate_bootstrap_room g = randint 0 (2 ^ 63 - 1) g"

text \<open>\<open>[_generate_bootstrap_room() for _ in range(n)]\<close>.\<close>

fun generate_bootstrap_rooms :: "nat \<Rightarrow> rng \<Rightarrow> int list \<times> rng" where
  "generate_bootstrap_rooms 0 g = ([], g)"
| "generate_bootstrap_rooms (Suc n) g =
     (case generate_bootstrap_room g of
        (room, g1) \<Rightarrow>
          (case generate_bootstrap_rooms n g1 of (rooms, g2) \<Rightarrow> (room # rooms, g2)))"

text \<open>
  \<open>_get_request_batch_size\<close>: \<open>None\<close> for a single item, the length for a batch.
\<close>

definition get_request_batch_size :: "dict \<Rightarrow> exn + nat option" where
  "get_request_batch_size request =
     (let text = dict_get request ''text''
      in if text \<noteq> JNull then
           (if isinstance_str text then Inr None
            else (case py_len text of Inl e \<Rightarrow> Inl e | Inr n \<Rightarrow> Inr (Some n)))
         else
           (let input_ids = dict_get request ''input_ids''
            in if input_ids \<noteq> JNull then
                 (case py_first input_ids of
                    Inl e \<Rightarrow> Inl e
                  | Inr x \<Rightarrow>
                      if isinstance_int x then Inr None
                      else (case py_len input_ids of Inl e \<Rightarrow> Inl e | Inr n \<Rightarrow> Inr (Some n)))
               else Inr None))"

subsection \<open>The object store\<close>

text \<open>
  The handlers receive the request body as a reference to a dictionary object, copy it
  and update the copy in place. The store is the list of the dictionary objects; a
  reference is a position in it; \<open>d.copy()\<close> makes a new object with the items of the old
  one.
\<close>

type_synonym heap = "dict list"

definition dict_copy :: "heap \<Rightarrow> nat \<Rightarrow> heap \<times> nat" where
  "dict_copy h r = (h @ [h ! r], length h)"

definition heap_update :: "heap \<Rightarrow> nat \<Rightarrow> dict \<Rightarrow> heap" where
  "heap_update h r other = h[r := dict_update (h ! r) other]"

subsection \<open>The request handlers\<close>

text \<open>
  The bootstrap fields of \<open>/generate\<close>, in the order of the dictionary literal: for a
  batch the host and the port are repeated and one room is drawn per item, otherwise
  all three are single values.
\<close>

definition generate_bootstrap_fields ::
  "json \<Rightarrow> int \<Rightarrow> nat option \<Rightarrow> rng \<Rightarrow> dict \<times> rng" where
  "generate_bootstrap_fields hostname port batch_size g =
     (case batch_size of
        Some n \<Rightarrow>
          (case generate_bootstrap_rooms n g of
             (rooms, g') \<Rightarrow>
               ([(''bootstrap_host'', JArray (replicate n hostname)),
                 (''bootstrap_port'', JArray (replicate n (JInt port))),
                 (''bootstrap_room'', JArray (map JInt rooms))], g'))
      | None \<Rightarrow>
          (case generate_bootstrap_room g of
             (room, g') \<Rightarrow>
               ([(''bootstrap_host'', hostname),
                 (''bootstrap_port'', JInt port),
                 (''bootstrap_room'', JInt room)], g')))"

text \<open>
  The part of \<open>handle_generate_request\<close> between the selection and the dispatch: the
  copy, the batch size, the update of the copy. It returns the reference to the copy.
\<close>

definition inject_generate ::
  "json \<Rightarrow> int \<Rightarrow> rng \<Rightarrow> heap \<Rightarrow> nat \<Rightarrow> (exn + nat) \<times> rng \<times> heap" where
  "inject_generate hostname port g h request_data =
     (case dict_copy h request_data of
        (h1, modified_request) \<Rightarrow>
          (case get_request_batch_size (h1 ! modified_request) of
             Inl e \<Rightarrow> (Inl e, g, h1)
           | Inr batch_size \<Rightarrow>
               (case generate_bootstrap_fields hostname port batch_size g of
                  (updates, g') \<Rightarrow>
                    (Inr modified_request, g', heap_update h1 modified_request updates))))"

definition handle_generate_request ::
  "library \<Rightarrow> network \<Rightarrow> MiniLoadBalancer \<Rightarrow> rng \<Rightarrow> heap \<Rightarrow> nat \<Rightarrow>
   (exn + http_response) \<times> MiniLoadBalancer \<times> rng \<times> heap \<times> event list" where
  "handle_generate_request lib net lb g h request_data =
     (case select_pair lb g of
        (Inl e, lb1, g1) \<Rightarrow> (Inl e, lb1, g1, h, [])
      | (Inr (prefill_server, port, decode_server), lb1, g1) \<Rightarrow>
          (let hostname = hostname_json (urlparse_hostname lib prefill_server)
           in (case inject_generate hostname port g1 h request_data of
                 (Inl e, g2, h2) \<Rightarrow> (Inl e, lb1, g2, h2, [])
               | (Inr modified_request, g2, h2) \<Rightarrow>
                   (if py_truthy (dict_get_default (h2 ! request_data) ''stream'' (JBool False))
                    then (case generate_stream lib net (h2 ! modified_request)
                                 prefill_server decode_server ''generate'' of
                            (r, evs) \<Rightarrow> (r, lb1, g2, h2, evs))
                    else (case generate lib net (h2 ! modified_request)
                                 prefill_server decode_server ''generate'' of
                            (r, evs) \<Rightarrow> (r, lb1, g2, h2, evs))))))"

text \<open>
  The same part of \<open>handle_completion_request\<close>: the room is the caller's \<open>req_id\<close>
  when it is not \<open>None\<close>, a fresh draw otherwise. The diagnostic \<open>print\<close> is left out.
\<close>

definition inject_completion ::
  "json \<Rightarrow> int \<Rightarrow> rng \<Rightarrow> heap \<Rightarrow> nat \<Rightarrow> nat \<times> rng \<times> heap" where
  "inject_completion hostname port g h request_data =
     (case dict_copy h request_data of
        (h1, modified_request) \<Rightarrow>
          (let req_id = dict_get_default (h1 ! modified_request) ''req_id'' JNull
           in (case (if req_id \<noteq> JNull then (req_id, g)
                     else (case randint 0 (2 ^ 63 - 1) g of (room, g') \<Rightarrow> (JInt room, g'))) of
                 (bootstrap_room, g') \<Rightarrow>
                   (modified_request, g',
                    heap_update h1 modified_request
                      [(''bootstrap_host'', hostname),
                       (''bootstrap_port'', JInt port),
                       (''bootstrap_room'', bootstrap_room)]))))"

definition handle_completion_request ::
  "library \<Rightarrow> network \<Rightarrow> MiniLoadBalancer \<Rightarrow> rng \<Rightarrow> heap \<Rightarrow> nat \<Rightarrow>
   (exn + http_response) \<times> MiniLoadBalancer \<times> rng \<times> heap \<times> event list" where
  "handle_completion_request lib net lb g h request_data =
     (case select_pair lb g of
        (Inl e, lb1, g1) \<Rightarrow> (Inl e, lb1, g1, h, [])
      | (Inr (prefill_server, port, decode_server), lb1, g1) \<Rightarrow>
          (let hostname = hostname_json (urlparse_hostname lib prefill_server)
           in (case inject_completion hostname port g1 h request_data of
                 (modified_request, g2, h2) \<Rightarrow>
                   (if py_truthy (dict_get_default (h2 ! request_data) ''stream'' (JBool False))
                    then (case generate_stream lib net (h2 ! modified_request)
                                 prefill_server decode_server ''v1/chat/completions'' of
                            (r, evs) \<Rightarrow> (r, lb1, g2, h2, evs))
                    else (case generate lib net (h2 ! modified_request)
                                 prefill_server decode_server ''v1/chat/completions'' of
                            (r, evs) \<Rightarrow> (r, lb1, g2, h2, evs))))))"

subsection \<open>The model list\<close>

text \<open>
  \<open>get_models\<close>: the first prefill server is read outside the \<open>try\<close> block. Inside it,
  a status other than 200 raises an \<open>HTTPException\<close> with that status; the handler
  \<open>except Exception\<close> catches every exception of the block, this one too, and raises an
  \<open>HTTPException\<close> with status 500 and the text of what it caught. The response for
  status 200 is built inside the block as well.
\<close>

definition get_models_try :: "library \<Rightarrow> network \<Rightarrow> string \<Rightarrow> exn + http_response" where
  "get_models_try lib net prefill_server =
     (case net 0 (GET (prefill_server @ ''/v1/models'')) of
        Fault \<Rightarrow> Inl ClientError
      | Responded response \<Rightarrow>
          if status response \<noteq> 200 then
            Inl (HTTPException (status response)
                   (''Prefill server error: Status '' @ str_int (status response)))
          else (case json_body response of
                  None \<Rightarrow> Inl ContentTypeError
                | Some j \<Rightarrow> make_ORJSONResponse lib j 200))"

definition get_models ::
  "library \<Rightarrow> network \<Rightarrow> MiniLoadBalancer \<Rightarrow> (exn + http_response) \<times> event list" where
  "get_models lib net lb =
     (case prefill_servers lb of
        [] \<Rightarrow> (Inl IndexError, [])
      | prefill_server # rest \<Rightarrow>
          (case get_models_try lib net prefill_server of
             Inl e \<Rightarrow> (Inl (HTTPException 500 (str_exn lib e)),
                       [Call (GET (prefill_server @ ''/v1/models''))])
           | Inr r \<Rightarrow> (Inr r, [Call (GET (prefill_server @ ''/v1/models''))])))"

subsection \<open>Runs and concrete inputs used below\<close>

text \<open>
  The counter values that the calls of a run read: the \<open>k\<close>-th call reads the counter
  left by the \<open>k\<close> calls before it.
\<close>

definition cursors_read :: "nat \<Rightarrow> MiniLoadBalancer \<Rightarrow> rng \<Rightarrow> nat list" where
  "cursors_read n lb g =
     map (\<lambda>k. round_robin_counter (fst (snd (select_pairs k lb g)))) [0..<n]"

text \<open>A balancer with two prefill servers and one decode server, as the command line builds it.\<close>

definition lb0 :: MiniLoadBalancer where
  "lb0 = MiniLoadBalancer_init
           [\<lparr>url = ''http://p0:30000'', bootstrap_port = 8998\<rparr>,
            \<lparr>url = ''http://p1:30000'', bootstrap_port = 8999\<rparr>]
           [''http://d0:30001'']"

text \<open>
  \<open>orjson\<close> serialises integers of 64 bits only: a document that holds an integer
  below \<open>-2\<^sup>6\<^sup>3\<close> or above \<open>2\<^sup>6\<^sup>4 - 1\<close> makes \<open>orjson.dumps\<close> raise a
  \<open>TypeError\<close>. The JSON parser behind \<open>response.json()\<close> accepts such integers.
\<close>

fun ints_in_64_bits :: "json \<Rightarrow> bool" where
  "ints_in_64_bits (JInt i) = (- (2 ^ 63) \<le> i \<and> i \<le> 2 ^ 64 - 1)"
| "ints_in_64_bits (JArray xs) = list_all ints_in_64_bits xs"
| "ints_in_64_bits (JObject d) = list_all ints_in_64_bits (map snd d)"
| "ints_in_64_bits _ = True"

text \<open>
  Concrete library functions for the examples: the text of an \<open>HTTPException\<close> is its
  status and its detail, as the framework prints it; the serialiser raises on an integer
  outside 64 bits and returns a fixed text otherwise, its output not being looked at.
\<close>

definition lib0 :: library where
  "lib0 = \<lparr>urlparse_hostname =
             (\<lambda>u. if u = ''http://p0:30000'' then Some ''p0''
                  else if u = ''http://p1:30000'' then Some ''p1'' else None),
           str_exn = (\<lambda>e. case e of HTTPException s d \<Rightarrow> str_int s @ '': '' @ d | _ \<Rightarrow> []),
           orjson_dumps = (\<lambda>j. if ints_in_64_bits j then Inr ''{}'' else Inl TypeError)\<rparr>"

text \<open>Backends that answer every call with the given status and an empty JSON object.\<close>

definition respond :: "int \<Rightarrow> outcome" where
  "respond s = Responded \<lparr>status = s, json_body = Some (JObject []), content = [],
                          content_fault = False\<rparr>"

definition net_all :: "int \<Rightarrow> network" where
  "net_all s = (\<lambda>i c. respond s)"

text \<open>Backends of which the third one called answers 503 and the others 200.\<close>

definition net_503 :: network where
  "net_503 = (\<lambda>i c. if i = 2 then respond 503 else respond 200)"

text \<open>Backends of which the second one called cannot be reached and the others answer 500.\<close>

definition net_fault :: network where
  "net_fault = (\<lambda>i c. if i = 1 then Fault else respond 500)"



subsection \<open>Observations on results and events\<close>

text \<open>
  The status of each backend in a fan-out, in call order: \<open>None\<close> for a transport
  fault.
\<close>

definition backend_statuses :: "network \<Rightarrow> MiniLoadBalancer \<Rightarrow> string \<Rightarrow> int option list" where
  "backend_statuses net lb path =
     map (\<lambda>out. case out of Fault \<Rightarrow> None | Responded r \<Rightarrow> Some (status r))
       (outcomes net (admin_calls lb path))"

text \<open>
  A result aggregates a list of statuses: it is a structured result, its flag says
  whether every status is 200, and its message is the first text when the flag is set
  and the second one otherwise.
\<close>

definition aggregates ::
  "exn + admin_result \<Rightarrow> int option list \<Rightarrow> string \<Rightarrow> string \<Rightarrow> bool" where
  "aggregates res statuses ok_message fail_message =
     (case res of
        Inl e \<Rightarrow> False
      | Inr r \<Rightarrow>
          success r = list_all (\<lambda>s. s = Some 200) statuses \<and>
          message r = (if success r then ok_message else fail_message))"

fun is_call :: "event \<Rightarrow> bool" where
  "is_call (Call c) = True"
| "is_call _ = False"

fun is_flag_write :: "event \<Rightarrow> bool" where
  "is_flag_write (SetProfiling b) = True"
| "is_flag_write (SetRecording b) = True"
| "is_flag_write _ = False"

text \<open>No backend call is issued after a write to an admin flag.\<close>

fun flag_written_after_calls :: "event list \<Rightarrow> bool" where
  "flag_written_after_calls [] = True"
| "flag_written_after_calls (e # es) =
     ((is_flag_write e \<longrightarrow> list_all (\<lambda>e'. \<not> is_call e') es) \<and> flag_written_after_calls es)"

text \<open>The JSON bodies of the calls issued, in order.\<close>

fun forwarded_bodies :: "event list \<Rightarrow> dict list" where
  "forwarded_bodies [] = []"
| "forwarded_bodies (Call (POST u (Some d)) # es) = d # forwarded_bodies es"
| "forwarded_bodies (e # es) = forwarded_bodies es"

text \<open>The store and the events that a request handler returns.\<close>

definition handler_heap ::
  "(exn + http_response) \<times> MiniLoadBalancer \<times> rng \<times> heap \<times> event list \<Rightarrow> heap" where
  "handler_heap res = fst (snd (snd (snd res)))"

definition handler_events ::
  "(exn + http_response) \<times> MiniLoadBalancer \<times> rng \<times> heap \<times> event list \<Rightarrow> event list" where
  "handler_events res = snd (snd (snd (snd res)))"



text \<open>
  The batch size as the specification words it, to compare with
  \<open>get_request_batch_size\<close>: a scalar is any value that is neither a list nor a
  dictionary.
\<close>

fun is_scalar :: "json \<Rightarrow> bool" where
  "is_scalar (JArray xs) = False"
| "is_scalar (JObject d) = False"
| "is_scalar _ = True"

definition spec_batch_size :: "dict \<Rightarrow> nat option" where
  "spec_batch_size request =
     (case dict_get request ''text'' of
        JString s \<Rightarrow> None
      | JArray xs \<Rightarrow> Some (length xs)
      | _ \<Rightarrow>
          (case dict_get request ''input_ids'' of
             JArray (x # xs) \<Rightarrow> if is_scalar x then None else Some (length (x # xs))
           | _ \<Rightarrow> None))"

section \<open>Properties\<close>

subsection \<open>Pair selection\<close>

lemma mod_cancel:
  fixes c a b P :: nat
  shows "((c + a) mod P = (c + b) mod P) = (a mod P = b mod P)"
proof -
  have "((c + a) mod P = (c + b) mod P) = (int (c + a) mod int P = int (c + b) mod int P)"
    by (metis of_nat_eq_iff zmod_int)
  also have "\<dots> = (int P dvd (int (c + a) - int (c + b)))"
    by (rule mod_eq_dvd_iff)
  also have "\<dots> = (int P dvd (int a - int b))" by simp
  also have "\<dots> = (int a mod int P = int b mod int P)"
    by (rule mod_eq_dvd_iff [symmetric])
  also have "\<dots> = (a mod P = b mod P)"
    by (metis of_nat_eq_iff zmod_int)
  finally show ?thesis .
qed

lemma mod_offset:
  fixes c P i :: nat
  assumes "i < P"
  shows "(c + (i + P - c mod P) mod P) mod P = i"
proof -
  have "0 < P" using assms by simp
  then have "c mod P < P" by simp
  then have le: "c mod P \<le> i + P" by simp
  have "(c + (i + P - c mod P) mod P) mod P = (c mod P + (i + P - c mod P)) mod P"
    by (metis mod_add_left_eq mod_add_right_eq)
  also have "\<dots> = (i + P) mod P" using le by simp
  also have "\<dots> = i" using assms by simp
  finally show ?thesis .
qed

lemma div_step:
  fixes M P :: nat
  shows "Suc M div P = M div P + (if Suc M mod P = 0 then 1 else 0)"
  by (simp add: div_Suc)


lemma count_formula:
  fixes c P i j :: nat
  assumes j: "j < P" and hit: "(c + j) mod P = i"
  shows "length (filter (\<lambda>k. (c + k) mod P = i) [0..<N]) = (N + P - 1 - j) div P"
proof (induction N)
  case 0
  from j show ?case by simp
next
  case (Suc N)
  have eq: "Suc N + P - 1 - j = Suc (N + P - 1 - j)" using j by simp
  have z: "(Suc (N + P - 1 - j) mod P = 0) = ((c + N) mod P = i)"
  proof -
    have "Suc (N + P - 1 - j) = N + P - j" using j by simp
    moreover have "((N + P - j) mod P = 0) = ((N + P - j) mod P = 0 mod P)" by simp
    moreover have "((j + (N + P - j)) mod P = (j + 0) mod P) = ((N + P - j) mod P = 0 mod P)"
      by (rule mod_cancel)
    moreover have "j + (N + P - j) = N + P" using j by simp
    moreover have "((N + P) mod P = j mod P) = ((c + N) mod P = (c + j) mod P)"
      by (simp add: mod_cancel)
    ultimately show ?thesis using hit by simp
  qed
  show ?case
    by (simp only: eq div_step z upt_Suc_append [OF le0] filter_append Suc.IH [symmetric])
       simp
qed

lemma count_fair:
  fixes c P i :: nat
  assumes "i < P"
  shows "length (filter (\<lambda>k. (c + k) mod P = i) [0..<N]) \<in> {N div P, (N + P - 1) div P}"
proof -
  define j where "j = (i + P - c mod P) mod P"
  have P: "0 < P" using assms by simp
  have j: "j < P" using P by (simp add: j_def)
  have hit: "(c + j) mod P = i" unfolding j_def using assms by (rule mod_offset)
  let ?n = "length (filter (\<lambda>k. (c + k) mod P = i) [0..<N])"
  have n: "?n = (N + P - 1 - j) div P" using j hit by (rule count_formula)
  have lo: "N div P \<le> ?n" unfolding n using j by (intro div_le_mono) simp
  have hi: "?n \<le> (N + P - 1) div P" unfolding n by (intro div_le_mono) simp
  have "(N + P - 1) div P \<le> N div P + 1"
  proof -
    have "(N + P - 1) div P \<le> (N + P) div P" by (intro div_le_mono) simp
    also have "\<dots> = N div P + 1" using P by simp
    finally show ?thesis .
  qed
  with lo hi show ?thesis by auto
qed


lemma select_pair_ok:
  assumes "round_robin_counter lb < length (prefill_configs lb)" and "decode_servers lb \<noteq> []"
  shows "select_pair lb g =
     (Inr (url (prefill_configs lb ! round_robin_counter lb),
           bootstrap_port (prefill_configs lb ! round_robin_counter lb),
           decode_servers lb ! (g 0 mod length (decode_servers lb))),
      lb\<lparr>round_robin_counter := (round_robin_counter lb + 1) mod length (prefill_configs lb)\<rparr>,
      rng_next g)"
  using assms by (simp add: select_pair_def choice_def randbelow_def Let_def)

lemma select_pairs_run:
  assumes "round_robin_counter lb < length (prefill_configs lb)" and "decode_servers lb \<noteq> []"
  shows "select_pairs n lb g =
     (map (\<lambda>k. Inr (url (prefill_configs lb ! ((round_robin_counter lb + k) mod length (prefill_configs lb))),
                     bootstrap_port (prefill_configs lb ! ((round_robin_counter lb + k) mod length (prefill_configs lb))),
                     decode_servers lb ! (g k mod length (decode_servers lb)))) [0..<n],
      lb\<lparr>round_robin_counter := (round_robin_counter lb + n) mod length (prefill_configs lb)\<rparr>,
      (\<lambda>i. g (n + i)))"
  using assms
proof (induction n arbitrary: lb g)
  case 0
  then show ?case by simp
next
  case (Suc n)
  let ?P = "length (prefill_configs lb)"
  let ?lb1 = "lb\<lparr>round_robin_counter := (round_robin_counter lb + 1) mod ?P\<rparr>"
  have P: "0 < ?P" using Suc.prems(1) by (rule le_less_trans [OF le0])
  have c1: "round_robin_counter ?lb1 < length (prefill_configs ?lb1)" using P by simp
  have d1: "decode_servers ?lb1 \<noteq> []" using Suc.prems(2) by simp
  have m: "\<And>k. ((round_robin_counter lb + 1) mod ?P + k) mod ?P = (round_robin_counter lb + Suc k) mod ?P"
    by (simp add: mod_add_left_eq)
  have u: "[0..<Suc n] = 0 # map Suc [0..<n]"
    by (simp add: upt_conv_Cons map_Suc_upt del: upt_Suc)
  have ih: "select_pairs n ?lb1 (rng_next g) =
     (map (\<lambda>k. Inr (url (prefill_configs ?lb1 ! ((round_robin_counter ?lb1 + k) mod length (prefill_configs ?lb1))),
                     bootstrap_port (prefill_configs ?lb1 ! ((round_robin_counter ?lb1 + k) mod length (prefill_configs ?lb1))),
                     decode_servers ?lb1 ! (rng_next g k mod length (decode_servers ?lb1)))) [0..<n],
      ?lb1\<lparr>round_robin_counter := (round_robin_counter ?lb1 + n) mod length (prefill_configs ?lb1)\<rparr>,
      (\<lambda>i. rng_next g (n + i)))"
    by (rule Suc.IH [OF c1 d1])
  have step: "select_pairs (Suc n) lb g =
     (case select_pairs n ?lb1 (rng_next g) of
        (rs, lb2, g2) \<Rightarrow>
          (Inr (url (prefill_configs lb ! round_robin_counter lb),
                bootstrap_port (prefill_configs lb ! round_robin_counter lb),
                decode_servers lb ! (g 0 mod length (decode_servers lb))) # rs, lb2, g2))"
    by (simp only: select_pairs.simps select_pair_ok [OF Suc.prems] prod.case)
  have c0: "round_robin_counter lb mod ?P = round_robin_counter lb"
    using Suc.prems(1) by simp
  show ?case
    unfolding step ih u
    using m c0 by (simp add: rng_next_def comp_def del: upt_Suc)
qed

lemma count_list_map:
  "count_list (map f xs) i = length (filter (\<lambda>k. f k = i) xs)"
  by (induction xs) auto

lemma select_pair_state:
  assumes "round_robin_counter lb < length (prefill_configs lb)"
  shows "fst (snd (select_pair lb g)) =
     lb\<lparr>round_robin_counter := (round_robin_counter lb + 1) mod length (prefill_configs lb)\<rparr>"
  using assms by (simp add: select_pair_def Let_def split: prod.splits sum.splits)

lemma select_pairs_state:
  assumes "round_robin_counter lb < length (prefill_configs lb)"
  shows "fst (snd (select_pairs n lb g)) =
     lb\<lparr>round_robin_counter := (round_robin_counter lb + n) mod length (prefill_configs lb)\<rparr>"
  using assms
proof (induction n arbitrary: lb g)
  case 0
  then show ?case by simp
next
  case (Suc n)
  let ?P = "length (prefill_configs lb)"
  let ?lb1 = "lb\<lparr>round_robin_counter := (round_robin_counter lb + 1) mod ?P\<rparr>"
  have P: "0 < ?P" using Suc.prems by (rule le_less_trans [OF le0])
  have c1: "round_robin_counter ?lb1 < length (prefill_configs ?lb1)" using P by simp
  have st: "fst (snd (select_pairs (Suc n) lb g)) =
              fst (snd (select_pairs n ?lb1 (snd (snd (select_pair lb g)))))"
    using select_pair_state [OF Suc.prems, of g]
    by (cases "select_pair lb g") (simp add: split_beta)
  have m: "((round_robin_counter lb + 1) mod ?P + n) mod ?P =
             (round_robin_counter lb + Suc n) mod ?P"
    by (simp add: mod_add_left_eq)
  show ?case
    unfolding st Suc.IH [OF c1]
    using m by simp
qed

lemma counter_invariant:
  "pcs \<noteq> [] \<Longrightarrow>
   round_robin_counter (MiniLoadBalancer_init pcs ds) <
     length (prefill_configs (MiniLoadBalancer_init pcs ds))"
  "round_robin_counter lb < length (prefill_configs lb) \<Longrightarrow>
   round_robin_counter (fst (snd (select_pair lb g))) <
     length (prefill_configs (fst (snd (select_pair lb g))))"
proof -
  show "pcs \<noteq> [] \<Longrightarrow>
   round_robin_counter (MiniLoadBalancer_init pcs ds) <
     length (prefill_configs (MiniLoadBalancer_init pcs ds))"
    by (simp add: MiniLoadBalancer_init_def)
  assume c: "round_robin_counter lb < length (prefill_configs lb)"
  then have "0 < length (prefill_configs lb)" by (rule le_less_trans [OF le0])
  then show "round_robin_counter (fst (snd (select_pair lb g))) <
     length (prefill_configs (fst (snd (select_pair lb g))))"
    by (simp add: select_pair_state [OF c])
qed

text \<open>
  C1. Round-robin fairness of the prefill selection. Let the pool have \<open>P \<ge> 1\<close> prefill
  entries and let the counter hold a value \<open>c < P\<close>, as it does after construction and
  after every call. Then in \<open>N\<close> calls of \<open>select_pair\<close> one after the other the
  counters read are \<open>c, c + 1, \<dots>\<close> modulo \<open>P\<close>, in this cyclic order; every index below
  \<open>P\<close> is read \<open>\<lfloor>N / P\<rfloor>\<close> or \<open>\<lceil>N / P\<rceil>\<close> times; after each call the counter
  is the counter before it plus one, modulo \<open>P\<close>; and, when the decode pool is not
  empty, so that the calls return, the \<open>k\<close>-th call returns the URL and the bootstrap
  port of the entry under the counter it read.
\<close>

theorem select_pair_round_robin:
  assumes c: "round_robin_counter lb < length (prefill_configs lb)"
  shows "cursors_read N lb g =
           map (\<lambda>k. (round_robin_counter lb + k) mod length (prefill_configs lb)) [0..<N] \<and>
         (\<forall>i<length (prefill_configs lb).
           count_list (cursors_read N lb g) i = N div length (prefill_configs lb) \<or>
           count_list (cursors_read N lb g) i =
             (N + length (prefill_configs lb) - 1) div length (prefill_configs lb)) \<and>
         (\<forall>k<N. round_robin_counter (fst (snd (select_pairs (Suc k) lb g))) =
           (round_robin_counter (fst (snd (select_pairs k lb g))) + 1)
             mod length (prefill_configs lb)) \<and>
         (decode_servers lb \<noteq> [] \<longrightarrow>
           length (fst (select_pairs N lb g)) = N \<and>
           (\<forall>k<N. prefill_of (fst (select_pairs N lb g) ! k) =
             Some (url (prefill_configs lb ! (cursors_read N lb g ! k)),
                   bootstrap_port (prefill_configs lb ! (cursors_read N lb g ! k)))))"
proof -
  let ?P = "length (prefill_configs lb)"
  let ?c = "round_robin_counter lb"
  have cur: "cursors_read N lb g = map (\<lambda>k. (?c + k) mod ?P) [0..<N]"
    by (simp add: cursors_read_def select_pairs_state [OF c])
  have fair: "\<forall>i<?P. count_list (cursors_read N lb g) i = N div ?P \<or>
           count_list (cursors_read N lb g) i = (N + ?P - 1) div ?P"
  proof (intro allI impI)
    fix i assume i: "i < ?P"
    have "count_list (cursors_read N lb g) i =
            length (filter (\<lambda>k. (?c + k) mod ?P = i) [0..<N])"
      by (simp only: cur count_list_map)
    with count_fair [OF i, of ?c N]
    show "count_list (cursors_read N lb g) i = N div ?P \<or>
           count_list (cursors_read N lb g) i = (N + ?P - 1) div ?P"
      by simp
  qed
  have step: "\<forall>k<N. round_robin_counter (fst (snd (select_pairs (Suc k) lb g))) =
           (round_robin_counter (fst (snd (select_pairs k lb g))) + 1) mod ?P"
    by (simp only: select_pairs_state [OF c]) (simp add: mod_Suc_eq)
  have res: "decode_servers lb \<noteq> [] \<longrightarrow>
           length (fst (select_pairs N lb g)) = N \<and>
           (\<forall>k<N. prefill_of (fst (select_pairs N lb g) ! k) =
             Some (url (prefill_configs lb ! (cursors_read N lb g ! k)),
                   bootstrap_port (prefill_configs lb ! (cursors_read N lb g ! k))))"
  proof
    assume d: "decode_servers lb \<noteq> []"
    show "length (fst (select_pairs N lb g)) = N \<and>
           (\<forall>k<N. prefill_of (fst (select_pairs N lb g) ! k) =
             Some (url (prefill_configs lb ! (cursors_read N lb g ! k)),
                   bootstrap_port (prefill_configs lb ! (cursors_read N lb g ! k))))"
      by (simp add: cur select_pairs_run [OF c d] prefill_of_def)
  qed
  from cur fair step res show ?thesis by (intro conjI)
qed

theorem select_pair_round_robin_witness:
  "cursors_read 3 lb0 (\<lambda>i. i) = [0, 1, 0] \<and>
   count_list (cursors_read 3 lb0 (\<lambda>i. i)) 0 = 2 \<and>
   count_list (cursors_read 3 lb0 (\<lambda>i. i)) 1 = 1 \<and>
   prefill_of (fst (select_pairs 3 lb0 (\<lambda>i. i)) ! 1) = Some (''http://p1:30000'', 8999)"
proof -
  have c: "round_robin_counter lb0 < length (prefill_configs lb0)"
    by (simp add: lb0_def MiniLoadBalancer_init_def)
  have d: "decode_servers lb0 \<noteq> []"
    by (simp add: lb0_def MiniLoadBalancer_init_def)
  note t = select_pair_round_robin [OF c, of 3 "\<lambda>i. i"]
  have cur: "cursors_read 3 lb0 (\<lambda>i. i) = [0, 1, 0]"
    using t by (simp add: lb0_def MiniLoadBalancer_init_def upt_rec)
  have p: "prefill_of (fst (select_pairs 3 lb0 (\<lambda>i. i)) ! 1) = Some (''http://p1:30000'', 8999)"
    using t cur d by (simp add: lb0_def MiniLoadBalancer_init_def)
  show ?thesis using cur p by simp
qed

subsection \<open>Administrative fan-out\<close>

lemma gather_statuses:
  "list_all (\<lambda>out. out \<noteq> Fault) outs \<Longrightarrow>
   \<exists>rs. gather outs = Inr rs \<and>
        map (\<lambda>out. case out of Fault \<Rightarrow> None | Responded r \<Rightarrow> Some (status r)) outs =
          map (\<lambda>r. Some (status r)) rs"
proof (induction outs)
  case Nil
  then show ?case by simp
next
  case (Cons out outs)
  then show ?case by (cases out) auto
qed

lemma broadcast_aggregates:
  assumes "None \<notin> set (backend_statuses net lb path)"
  shows "aggregates (fst (broadcast net lb path ok_message fail_message))
           (backend_statuses net lb path) ok_message fail_message"
proof -
  let ?outs = "outcomes net (admin_calls lb path)"
  have "list_all (\<lambda>out. out \<noteq> Fault) ?outs"
    using assms by (auto simp: backend_statuses_def list_all_iff split: outcome.splits)
  from gather_statuses [OF this] obtain rs where
    g: "gather ?outs = Inr rs" and
    s: "backend_statuses net lb path = map (\<lambda>r. Some (status r)) rs"
    by (auto simp: backend_statuses_def)
  show ?thesis
    by (simp add: broadcast_def post_all_def Let_def g s aggregates_def all_status_200_def
          list_all_iff)
qed

lemma broadcast_events:
  "snd (broadcast net lb path ok_message fail_message) = map Call (admin_calls lb path)"
  by (simp add: broadcast_def post_all_def Let_def split: sum.splits)

lemma admin_calls_flags [simp]:
  "admin_calls (lb\<lparr>profiling := b\<rparr>) path = admin_calls lb path"
  "admin_calls (lb\<lparr>recording := b\<rparr>) path = admin_calls lb path"
  by (simp_all add: admin_calls_def)

lemma backend_statuses_flags [simp]:
  "backend_statuses net (lb\<lparr>profiling := b\<rparr>) path = backend_statuses net lb path"
  "backend_statuses net (lb\<lparr>recording := b\<rparr>) path = backend_statuses net lb path"
  by (simp_all add: backend_statuses_def)

text \<open>
  C5. Broadcast aggregation. For each of the seven admin methods that reaches its
  fan-out (the four guarded ones when their guard lets them through), over the chained
  prefill and decode pools: when every backend responds, the method returns a structured
  result whose success flag is true if and only if every backend status is 200, and
  whose message is one of the method's two fixed texts, chosen by that flag alone. With
  the statuses 200, 200, 503 the flag is false, with 200 throughout it is true.
\<close>

theorem broadcast_aggregation:
  "(\<not> profiling lb \<and> None \<notin> set (backend_statuses net lb ''/start_profile'') \<longrightarrow>
      aggregates (fst (start_profile net lb)) (backend_statuses net lb ''/start_profile'')
        ''Profiling started'' ''Failed to start profiling'') \<and>
   (profiling lb \<and> None \<notin> set (backend_statuses net lb ''/stop_profile'') \<longrightarrow>
      aggregates (fst (stop_profile net lb)) (backend_statuses net lb ''/stop_profile'')
        ''Profiling stopped'' ''Failed to stop profiling'') \<and>
   (\<not> recording lb \<and>
    None \<notin> set (backend_statuses net lb ''/start_expert_distribution_record'') \<longrightarrow>
      aggregates (fst (start_expert_distribution_record net lb))
        (backend_statuses net lb ''/start_expert_distribution_record'')
        ''Recording expert distribution started''
        ''Failed to start recording expert distribution'') \<and>
   (recording lb \<and>
    None \<notin> set (backend_statuses net lb ''/stop_expert_distribution_record'') \<longrightarrow>
      aggregates (fst (stop_expert_distribution_record net lb))
        (backend_statuses net lb ''/stop_expert_distribution_record'')
        ''Recording expert distribution stopped''
        ''Failed to stop recording expert distribution'') \<and>
   (None \<notin> set (backend_statuses net lb ''/dump_expert_distribution_record'') \<longrightarrow>
      aggregates (fst (dump_expert_distribution_record net lb))
        (backend_statuses net lb ''/dump_expert_distribution_record'')
        ''Dumping expert distribution succeed'' ''Failed to dumping expert distribution'') \<and>
   (None \<notin> set (backend_statuses net lb ''/eplb_rebalance'') \<longrightarrow>
      aggregates (fst (eplb_rebalance net lb)) (backend_statuses net lb ''/eplb_rebalance'')
        ''EPLB rebalanced'' ''Failed to rebalancing EPLB.'') \<and>
   (None \<notin> set (backend_statuses net lb ''/eplb_save_expert_distribution'') \<longrightarrow>
      aggregates (fst (eplb_save_expert_distribution net lb))
        (backend_statuses net lb ''/eplb_save_expert_distribution'')
        ''Saving expert distribution succeed'' ''Failed to saving expert distribution.'')"
proof (intro conjI impI)
  assume a: "\<not> profiling lb \<and> None \<notin> set (backend_statuses net lb ''/start_profile'')"
  then have "None \<notin> set (backend_statuses net (lb\<lparr>profiling := True\<rparr>) ''/start_profile'')"
    by simp
  from broadcast_aggregates [OF this] a
  show "aggregates (fst (start_profile net lb)) (backend_statuses net lb ''/start_profile'')
        ''Profiling started'' ''Failed to start profiling''"
    by (simp add: start_profile_def Let_def split_beta)
next
  assume a: "profiling lb \<and> None \<notin> set (backend_statuses net lb ''/stop_profile'')"
  then have "None \<notin> set (backend_statuses net (lb\<lparr>profiling := False\<rparr>) ''/stop_profile'')"
    by simp
  from broadcast_aggregates [OF this] a
  show "aggregates (fst (stop_profile net lb)) (backend_statuses net lb ''/stop_profile'')
        ''Profiling stopped'' ''Failed to stop profiling''"
    by (simp add: stop_profile_def Let_def split_beta)
next
  assume a: "\<not> recording lb \<and>
    None \<notin> set (backend_statuses net lb ''/start_expert_distribution_record'')"
  then have "None \<notin> set (backend_statuses net (lb\<lparr>recording := True\<rparr>)
                 ''/start_expert_distribution_record'')"
    by simp
  from broadcast_aggregates [OF this] a
  show "aggregates (fst (start_expert_distribution_record net lb))
        (backend_statuses net lb ''/start_expert_distribution_record'')
        ''Recording expert distribution started''
        ''Failed to start recording expert distribution''"
    by (simp add: start_expert_distribution_record_def Let_def split_beta)
next
  assume a: "recording lb \<and>
    None \<notin> set (backend_statuses net lb ''/stop_expert_distribution_record'')"
  then have "None \<notin> set (backend_statuses net (lb\<lparr>recording := False\<rparr>)
                 ''/stop_expert_distribution_record'')"
    by simp
  from broadcast_aggregates [OF this] a
  show "aggregates (fst (stop_expert_distribution_record net lb))
        (backend_statuses net lb ''/stop_expert_distribution_record'')
        ''Recording expert distribution stopped''
        ''Failed to stop recording expert distribution''"
    by (simp add: stop_expert_distribution_record_def Let_def split_beta)
next
  assume "None \<notin> set (backend_statuses net lb ''/dump_expert_distribution_record'')"
  from broadcast_aggregates [OF this]
  show "aggregates (fst (dump_expert_distribution_record net lb))
        (backend_statuses net lb ''/dump_expert_distribution_record'')
        ''Dumping expert distribution succeed'' ''Failed to dumping expert distribution''"
    by (simp add: dump_expert_distribution_record_def split_beta)
next
  assume "None \<notin> set (backend_statuses net lb ''/eplb_rebalance'')"
  from broadcast_aggregates [OF this]
  show "aggregates (fst (eplb_rebalance net lb)) (backend_statuses net lb ''/eplb_rebalance'')
        ''EPLB rebalanced'' ''Failed to rebalancing EPLB.''"
    by (simp add: eplb_rebalance_def split_beta)
next
  assume "None \<notin> set (backend_statuses net lb ''/eplb_save_expert_distribution'')"
  from broadcast_aggregates [OF this]
  show "aggregates (fst (eplb_save_expert_distribution net lb))
        (backend_statuses net lb ''/eplb_save_expert_distribution'')
        ''Saving expert distribution succeed'' ''Failed to saving expert distribution.''"
    by (simp add: eplb_save_expert_distribution_def split_beta)
qed

lemma statuses_503:
  "backend_statuses net_503 lb0 path = [Some 200, Some 200, Some 503]"
  by (simp add: backend_statuses_def outcomes_def admin_calls_def lb0_def
        MiniLoadBalancer_init_def net_503_def respond_def upt_rec)

lemma statuses_200:
  "backend_statuses (net_all 200) lb0 path = [Some 200, Some 200, Some 200]"
  by (simp add: backend_statuses_def outcomes_def admin_calls_def lb0_def
        MiniLoadBalancer_init_def net_all_def respond_def upt_rec)

theorem broadcast_aggregation_witness:
  "backend_statuses net_503 lb0 ''/dump_expert_distribution_record'' =
     [Some 200, Some 200, Some 503] \<and>
   fst (dump_expert_distribution_record net_503 lb0) =
     Inr \<lparr>success = False, message = ''Failed to dumping expert distribution''\<rparr> \<and>
   fst (start_profile net_503 lb0) =
     Inr \<lparr>success = False, message = ''Failed to start profiling''\<rparr> \<and>
   backend_statuses (net_all 200) lb0 ''/start_profile'' = [Some 200, Some 200, Some 200] \<and>
   fst (start_profile (net_all 200) lb0) =
     Inr \<lparr>success = True, message = ''Profiling started''\<rparr>"
proof -
  have p: "\<not> profiling lb0" by (simp add: lb0_def MiniLoadBalancer_init_def)
  have a: "fst (dump_expert_distribution_record net_503 lb0) =
     Inr \<lparr>success = False, message = ''Failed to dumping expert distribution''\<rparr>"
    using broadcast_aggregation [of lb0 net_503]
    by (cases "fst (dump_expert_distribution_record net_503 lb0)")
       (simp_all add: statuses_503 aggregates_def)
  have b: "fst (start_profile net_503 lb0) =
     Inr \<lparr>success = False, message = ''Failed to start profiling''\<rparr>"
    using broadcast_aggregation [of lb0 net_503] p
    by (cases "fst (start_profile net_503 lb0)")
       (simp_all add: statuses_503 aggregates_def)
  have c: "fst (start_profile (net_all 200) lb0) =
     Inr \<lparr>success = True, message = ''Profiling started''\<rparr>"
    using broadcast_aggregation [of lb0 "net_all 200"] p
    by (cases "fst (start_profile (net_all 200) lb0)")
       (simp_all add: statuses_200 aggregates_def)
  show ?thesis using a b c by (simp add: statuses_503 statuses_200)
qed

text \<open>
  C6. The guard of the admin methods. Starting what is already active, or stopping what
  is not active, returns a structured result (no exception) with \<open>success = False\<close>
  and the method's own message, issues no backend call and leaves the balancer, the flag
  included, as it was.
\<close>

theorem admin_guard_short_circuit:
  "(profiling lb \<longrightarrow>
      start_profile net lb =
        (Inr \<lparr>success = False, message = ''Profiling is already in progress''\<rparr>, lb, [])) \<and>
   (\<not> profiling lb \<longrightarrow>
      stop_profile net lb =
        (Inr \<lparr>success = False, message = ''Profiling is not in progress''\<rparr>, lb, [])) \<and>
   (recording lb \<longrightarrow>
      start_expert_distribution_record net lb =
        (Inr \<lparr>success = False, message = ''Recoding is already in progress''\<rparr>, lb, [])) \<and>
   (\<not> recording lb \<longrightarrow>
      stop_expert_distribution_record net lb =
        (Inr \<lparr>success = False, message = ''Recoding is not in progress''\<rparr>, lb, []))"
  by (simp add: start_profile_def stop_profile_def start_expert_distribution_record_def
        stop_expert_distribution_record_def)

theorem admin_guard_short_circuit_witness:
  "\<not> profiling lb0 \<and>
   stop_profile (net_all 200) lb0 =
     (Inr \<lparr>success = False, message = ''Profiling is not in progress''\<rparr>, lb0, []) \<and>
   profiling (fst (snd (start_profile (net_all 200) lb0))) \<and>
   start_profile (net_all 200) (fst (snd (start_profile (net_all 200) lb0))) =
     (Inr \<lparr>success = False, message = ''Profiling is already in progress''\<rparr>,
      fst (snd (start_profile (net_all 200) lb0)), [])"
proof -
  have p: "\<not> profiling lb0" by (simp add: lb0_def MiniLoadBalancer_init_def)
  have q: "profiling (fst (snd (start_profile (net_all 200) lb0)))"
    using p by (simp add: start_profile_def Let_def split_beta)
  show ?thesis
    using admin_guard_short_circuit [of lb0 "net_all 200"]
      admin_guard_short_circuit [of "fst (snd (start_profile (net_all 200) lb0))" "net_all 200"]
      p q
    by simp
qed

text \<open>
  C7, as stated: the flag is written only after the fan-out has completed. It fails:
  starting the profiler on two prefill servers and one decode server issues its three
  calls after the write to the flag.
\<close>

theorem admin_flag_order_counterexample:
  "snd (snd (start_profile (net_all 200) lb0)) =
     [SetProfiling True,
      Call (POST ''http://p0:30000/start_profile'' None),
      Call (POST ''http://p1:30000/start_profile'' None),
      Call (POST ''http://d0:30001/start_profile'' None)] \<and>
   \<not> flag_written_after_calls (snd (snd (start_profile (net_all 200) lb0)))"
  by (simp add: start_profile_def broadcast_def post_all_def admin_calls_def outcomes_def
        lb0_def MiniLoadBalancer_init_def net_all_def respond_def Let_def upt_rec
        all_status_200_def)

text \<open>
  C7, amended. A start or stop that passes its guard writes the flag first and issues
  the calls of the fan-out after it, one per backend; the flag of the returned balancer
  has flipped whatever the backends do: all 200, some other status, or a transport
  fault that makes the method raise.
\<close>

theorem admin_flag_written_first:
  "(\<not> profiling lb \<longrightarrow>
      snd (snd (start_profile net lb)) =
        SetProfiling True # map Call (admin_calls lb ''/start_profile'') \<and>
      fst (snd (start_profile net lb)) = lb\<lparr>profiling := True\<rparr>) \<and>
   (profiling lb \<longrightarrow>
      snd (snd (stop_profile net lb)) =
        SetProfiling False # map Call (admin_calls lb ''/stop_profile'') \<and>
      fst (snd (stop_profile net lb)) = lb\<lparr>profiling := False\<rparr>) \<and>
   (\<not> recording lb \<longrightarrow>
      snd (snd (start_expert_distribution_record net lb)) =
        SetRecording True # map Call (admin_calls lb ''/start_expert_distribution_record'') \<and>
      fst (snd (start_expert_distribution_record net lb)) = lb\<lparr>recording := True\<rparr>) \<and>
   (recording lb \<longrightarrow>
      snd (snd (stop_expert_distribution_record net lb)) =
        SetRecording False # map Call (admin_calls lb ''/stop_expert_distribution_record'') \<and>
      fst (snd (stop_expert_distribution_record net lb)) = lb\<lparr>recording := False\<rparr>)"
  using broadcast_events [of net]
  by (simp add: start_profile_def stop_profile_def start_expert_distribution_record_def
        stop_expert_distribution_record_def Let_def split_beta admin_calls_def)

theorem admin_flag_written_first_witness:
  "\<not> profiling lb0 \<and>
   fst (start_profile net_fault lb0) = Inl ClientError \<and>
   profiling (fst (snd (start_profile net_fault lb0))) \<and>
   hd (snd (snd (start_profile net_fault lb0))) = SetProfiling True \<and>
   length (snd (snd (start_profile net_fault lb0))) = 4"
proof -
  have p: "\<not> profiling lb0" by (simp add: lb0_def MiniLoadBalancer_init_def)
  have r: "fst (start_profile net_fault lb0) = Inl ClientError"
    by (simp add: start_profile_def broadcast_def post_all_def admin_calls_def outcomes_def
        lb0_def MiniLoadBalancer_init_def net_fault_def respond_def Let_def upt_rec)
  have n: "length (admin_calls lb0 ''/start_profile'') = 3"
    by (simp add: admin_calls_def lb0_def MiniLoadBalancer_init_def)
  show ?thesis
    using admin_flag_written_first [of lb0 net_fault] p r n by simp
qed

subsection \<open>Dual dispatch and the model list\<close>




text \<open>
  C8. The claim says that \<open>/v1/models\<close> passes the backend's own status on. The code
  raises an \<open>HTTPException\<close> with that status inside its \<open>try\<close> block, and its own
  \<open>except Exception\<close> catches it: with the first prefill server answering 404, the
  client gets status 500, the 404 surviving only in the detail text.
\<close>

theorem get_models_status_not_verbatim:
  "get_models lib0 (net_all 404) lb0 =
     (Inl (HTTPException 500 ''404: Prefill server error: Status 404''),
      [Call (GET ''http://p0:30000/v1/models'')])"
  by (simp add: get_models_def get_models_try_def lb0_def MiniLoadBalancer_init_def
        net_all_def respond_def lib0_def str_int_def)

subsection \<open>Batch size and bootstrap injection\<close>

text \<open>
  C3, as stated: for every request body the batch size is \<open>None\<close> when the first
  element of \<open>input_ids\<close> is a scalar. It fails: the code tests
  \<open>isinstance(input_ids[0], int)\<close>, so for the body \<open>{"input_ids": [1.5]}\<close>, whose
  first element is a scalar, it returns the length 1.
\<close>

theorem batch_size_scalar_counterexample:
  "get_request_batch_size [(''input_ids'', JArray [JFloat (3 / 2)])] = Inr (Some 1) \<and>
   spec_batch_size [(''input_ids'', JArray [JFloat (3 / 2)])] = None"
  by (simp add: get_request_batch_size_def spec_batch_size_def dict_get_def)

text \<open>
  C3, amended. When \<open>text\<close> is a string the batch size is \<open>None\<close>; when it is a list,
  its length. When \<open>text\<close> is absent or null and \<open>input_ids\<close> is a non-empty list, the
  batch size is \<open>None\<close> if the first element is an integer (a boolean included) and the
  length of the list otherwise. When both fields are absent or null it is \<open>None\<close>. The
  five examples of the specification follow.
\<close>

theorem batch_size_cases:
  "(dict_get request ''text'' = JString s \<longrightarrow> get_request_batch_size request = Inr None) \<and>
   (dict_get request ''text'' = JArray ts \<longrightarrow>
      get_request_batch_size request = Inr (Some (length ts))) \<and>
   (dict_get request ''text'' = JNull \<and> dict_get request ''input_ids'' = JArray (x # xs) \<longrightarrow>
      get_request_batch_size request =
        Inr (if isinstance_int x then None else Some (length (x # xs)))) \<and>
   (dict_get request ''text'' = JNull \<and> dict_get request ''input_ids'' = JNull \<longrightarrow>
      get_request_batch_size request = Inr None)"
  by (simp add: get_request_batch_size_def)

theorem batch_size_cases_witness:
  "get_request_batch_size [(''text'', JString ''hello'')] = Inr None \<and>
   get_request_batch_size [(''text'', JArray [JString ''a'', JString ''b'', JString ''c''])] =
     Inr (Some 3) \<and>
   get_request_batch_size [(''input_ids'', JArray [JInt 1, JInt 2, JInt 3])] = Inr None \<and>
   get_request_batch_size
     [(''input_ids'', JArray [JArray [JInt 1, JInt 2], JArray [JInt 3, JInt 4]])] =
     Inr (Some 2) \<and>
   get_request_batch_size [] = Inr None"
  using batch_size_cases [of "[(''text'', JString ''hello'')]" "''hello''"]
    batch_size_cases [of "[(''text'', JArray [JString ''a'', JString ''b'', JString ''c''])]"
      _ "[JString ''a'', JString ''b'', JString ''c'']"]
    batch_size_cases [of "[(''input_ids'', JArray [JInt 1, JInt 2, JInt 3])]" _ _
      "JInt 1" "[JInt 2, JInt 3]"]
    batch_size_cases
      [of "[(''input_ids'', JArray [JArray [JInt 1, JInt 2], JArray [JInt 3, JInt 4]])]" _ _
      "JArray [JInt 1, JInt 2]" "[JArray [JInt 3, JInt 4]]"]
    batch_size_cases [of "[]"]
  by (simp add: dict_get_def)






subsection \<open>The forwarded request\<close>

lemma map_of_dict_setitem: "map_of (dict_setitem k v d) = (map_of d)(k \<mapsto> v)"
  by (induction d) (auto simp: fun_eq_iff)

lemma bootstrap_room_draw:
  "generate_bootstrap_room g = (int (g 0 mod 2 ^ 63), rng_next g)"
  by (simp add: generate_bootstrap_room_def randint_def randbelow_def)

lemma bootstrap_rooms_draws:
  "generate_bootstrap_rooms n g =
     (map (\<lambda>i. int (g i mod 2 ^ 63)) [0..<n], (\<lambda>i. g (n + i)))"
proof (induction n arbitrary: g)
  case 0
  then show ?case by simp
next
  case (Suc n)
  have u: "[0..<Suc n] = 0 # map Suc [0..<n]"
    by (simp add: upt_conv_Cons map_Suc_upt del: upt_Suc)
  show ?case
    unfolding u
    by (simp add: bootstrap_room_draw Suc.IH rng_next_def comp_def del: upt_Suc)
qed

lemma forwarded_generate:
  "check_endpoint endpoint = None \<Longrightarrow>
   forwarded_bodies (snd (generate lib net m p d endpoint)) = [m, m]"
  by (simp add: generate_def dispatch_calls_def Let_def split: sum.splits option.splits)

lemma forwarded_generate_stream:
  "check_endpoint endpoint = None \<Longrightarrow>
   forwarded_bodies (snd (generate_stream lib net m p d endpoint)) = [m, m]"
  by (simp add: generate_stream_def dispatch_calls_def Let_def split: sum.splits)

lemma endpoints_ok:
  "check_endpoint ''generate'' = None" "check_endpoint ''v1/chat/completions'' = None"
  by (simp_all add: check_endpoint_def)

lemma handle_generate_request_ok:
  fixes lib :: library and net :: network and lb :: MiniLoadBalancer and g :: rng
    and h :: heap and request_data :: nat and batch_size :: "nat option"
  assumes c: "round_robin_counter lb < length (prefill_configs lb)"
    and d: "decode_servers lb \<noteq> []"
    and r: "request_data < length h"
    and b: "get_request_batch_size (h ! request_data) = Inr batch_size"
  defines "m \<equiv> dict_update (h ! request_data)
      (fst (generate_bootstrap_fields
         (hostname_json (urlparse_hostname lib
            (url (prefill_configs lb ! round_robin_counter lb))))
         (bootstrap_port (prefill_configs lb ! round_robin_counter lb))
         batch_size (rng_next g)))"
  shows "handler_heap (handle_generate_request lib net lb g h request_data) = h @ [m]"
    and "forwarded_bodies (handler_events (handle_generate_request lib net lb g h request_data))
           = [m, m]"
proof -
  let ?host = "hostname_json (urlparse_hostname lib
            (url (prefill_configs lb ! round_robin_counter lb)))"
  let ?port = "bootstrap_port (prefill_configs lb ! round_robin_counter lb)"
  have ig: "inject_generate ?host ?port (rng_next g) h request_data =
     (Inr (length h), snd (generate_bootstrap_fields ?host ?port batch_size (rng_next g)),
      h @ [m])"
    using r b by (simp add: inject_generate_def dict_copy_def heap_update_def split_beta m_def)
  have nth: "(h @ [m]) ! request_data = h ! request_data" using r by (simp add: nth_append)
  show "handler_heap (handle_generate_request lib net lb g h request_data) = h @ [m]"
    by (simp add: handle_generate_request_def select_pair_ok [OF c d] ig Let_def
          handler_heap_def split_beta)
  show "forwarded_bodies (handler_events (handle_generate_request lib net lb g h request_data))
           = [m, m]"
    by (simp add: handle_generate_request_def select_pair_ok [OF c d] ig Let_def
          handler_events_def split_beta forwarded_generate forwarded_generate_stream
          endpoints_ok)
qed

lemma handle_completion_request_ok:
  fixes lib :: library and net :: network and lb :: MiniLoadBalancer and g :: rng
    and h :: heap and request_data :: nat
  assumes c: "round_robin_counter lb < length (prefill_configs lb)"
    and d: "decode_servers lb \<noteq> []"
    and r: "request_data < length h"
  defines "m \<equiv> dict_update (h ! request_data)
      [(''bootstrap_host'', hostname_json (urlparse_hostname lib
            (url (prefill_configs lb ! round_robin_counter lb)))),
       (''bootstrap_port'', JInt (bootstrap_port (prefill_configs lb ! round_robin_counter lb))),
       (''bootstrap_room'',
          if dict_get_default (h ! request_data) ''req_id'' JNull \<noteq> JNull
          then dict_get_default (h ! request_data) ''req_id'' JNull
          else JInt (int (g 1 mod 2 ^ 63)))]"
  shows "handler_heap (handle_completion_request lib net lb g h request_data) = h @ [m]"
    and "forwarded_bodies
           (handler_events (handle_completion_request lib net lb g h request_data)) = [m, m]"
proof -
  let ?host = "hostname_json (urlparse_hostname lib
            (url (prefill_configs lb ! round_robin_counter lb)))"
  let ?port = "bootstrap_port (prefill_configs lb ! round_robin_counter lb)"
  have rd: "randint 0 (2 ^ 63 - 1) (rng_next g) = (int (g 1 mod 2 ^ 63), rng_next (rng_next g))"
    by (simp add: randint_def randbelow_def rng_next_def)
  have ic: "snd (snd (inject_completion ?host ?port (rng_next g) h request_data)) = h @ [m]"
    "fst (inject_completion ?host ?port (rng_next g) h request_data) = length h"
    using r unfolding inject_completion_def rd
    by (simp_all add: dict_copy_def heap_update_def Let_def m_def)
  have nth: "(h @ [m]) ! request_data = h ! request_data" using r by (simp add: nth_append)
  show "handler_heap (handle_completion_request lib net lb g h request_data) = h @ [m]"
    by (simp add: handle_completion_request_def select_pair_ok [OF c d] ic Let_def
          handler_heap_def split_beta)
  show "forwarded_bodies
           (handler_events (handle_completion_request lib net lb g h request_data)) = [m, m]"
    by (simp add: handle_completion_request_def select_pair_ok [OF c d] ic Let_def
          handler_events_def split_beta forwarded_generate forwarded_generate_stream
          endpoints_ok)
qed

text \<open>
  C4. The shape of the bootstrap fields on \<open>/generate\<close>. Let the selection succeed
  (counter below the pool size, decode pool non-empty) and let \<open>host\<close> be the hostname
  parsed from the URL of the selected prefill entry and \<open>port\<close> its bootstrap port. For a
  body whose batch size is \<open>None\<close>, the request sent to both backends has
  \<open>bootstrap_host = host\<close>, \<open>bootstrap_port = port\<close> and \<open>bootstrap_room\<close> one integer
  drawn in \<open>[0, 2\<^sup>6\<^sup>3 - 1]\<close>. For batch size \<open>n\<close> it has \<open>host\<close> and \<open>port\<close> each
  repeated \<open>n\<close> times and \<open>bootstrap_room\<close> a list of \<open>n\<close> integers, each from a draw of
  its own and each in \<open>[0, 2\<^sup>6\<^sup>3 - 1]\<close>. (Draw 0 of the generator is the choice of the
  decode server; the rooms are the draws after it.)
\<close>

theorem bootstrap_injection_shape:
  fixes lib :: library and net :: network and lb :: MiniLoadBalancer and g :: rng
    and h :: heap and request_data :: nat
  assumes c: "round_robin_counter lb < length (prefill_configs lb)"
    and d: "decode_servers lb \<noteq> []"
    and r: "request_data < length h"
  defines "host \<equiv> hostname_json (urlparse_hostname lib
            (url (prefill_configs lb ! round_robin_counter lb)))"
    and "port \<equiv> bootstrap_port (prefill_configs lb ! round_robin_counter lb)"
    and "sent \<equiv> forwarded_bodies
            (handler_events (handle_generate_request lib net lb g h request_data))"
  shows "(get_request_batch_size (h ! request_data) = Inr None \<longrightarrow>
           (\<exists>m. sent = [m, m] \<and>
                map_of m ''bootstrap_host'' = Some host \<and>
                map_of m ''bootstrap_port'' = Some (JInt port) \<and>
                map_of m ''bootstrap_room'' = Some (JInt (int (g 1 mod 2 ^ 63))) \<and>
                0 \<le> int (g 1 mod 2 ^ 63) \<and> int (g 1 mod 2 ^ 63) \<le> 2 ^ 63 - 1)) \<and>
         (\<forall>n. get_request_batch_size (h ! request_data) = Inr (Some n) \<longrightarrow>
           (\<exists>m. sent = [m, m] \<and>
                map_of m ''bootstrap_host'' = Some (JArray (replicate n host)) \<and>
                map_of m ''bootstrap_port'' = Some (JArray (replicate n (JInt port))) \<and>
                map_of m ''bootstrap_room'' =
                  Some (JArray (map (\<lambda>i. JInt (int (g (Suc i) mod 2 ^ 63))) [0..<n])) \<and>
                (\<forall>i<n. 0 \<le> int (g (Suc i) mod 2 ^ 63) \<and>
                        int (g (Suc i) mod 2 ^ 63) \<le> 2 ^ 63 - 1)))"
proof (intro conjI allI impI)
  have bound: "\<And>k. int (g k mod 2 ^ 63) \<le> 2 ^ 63 - 1"
  proof -
    fix k
    have "g k mod 2 ^ 63 < 2 ^ 63" by simp
    then have "int (g k mod 2 ^ 63) < int (2 ^ 63)" by (simp only: of_nat_less_iff)
    then show "int (g k mod 2 ^ 63) \<le> 2 ^ 63 - 1" by simp
  qed
  {
    assume b: "get_request_batch_size (h ! request_data) = Inr None"
    let ?m = "dict_update (h ! request_data)
                (fst (generate_bootstrap_fields host port None (rng_next g)))"
    have s: "sent = [?m, ?m]"
      unfolding sent_def host_def port_def by (rule handle_generate_request_ok(2) [OF c d r b])
    have f: "fst (generate_bootstrap_fields host port None (rng_next g)) =
               [(''bootstrap_host'', host), (''bootstrap_port'', JInt port),
                (''bootstrap_room'', JInt (int (g 1 mod 2 ^ 63)))]"
      by (simp add: generate_bootstrap_fields_def bootstrap_room_draw rng_next_def)
    have "map_of ?m ''bootstrap_host'' = Some host"
      "map_of ?m ''bootstrap_port'' = Some (JInt port)"
      "map_of ?m ''bootstrap_room'' = Some (JInt (int (g 1 mod 2 ^ 63)))"
      unfolding f by (simp_all add: map_of_dict_setitem)
    with s bound [of 1]
    show "\<exists>m. sent = [m, m] \<and>
                map_of m ''bootstrap_host'' = Some host \<and>
                map_of m ''bootstrap_port'' = Some (JInt port) \<and>
                map_of m ''bootstrap_room'' = Some (JInt (int (g 1 mod 2 ^ 63))) \<and>
                0 \<le> int (g 1 mod 2 ^ 63) \<and> int (g 1 mod 2 ^ 63) \<le> 2 ^ 63 - 1"
      by (intro exI [of _ ?m]) simp
  }
  {
    fix n
    assume b: "get_request_batch_size (h ! request_data) = Inr (Some n)"
    let ?m = "dict_update (h ! request_data)
                (fst (generate_bootstrap_fields host port (Some n) (rng_next g)))"
    have s: "sent = [?m, ?m]"
      unfolding sent_def host_def port_def by (rule handle_generate_request_ok(2) [OF c d r b])
    have f: "fst (generate_bootstrap_fields host port (Some n) (rng_next g)) =
               [(''bootstrap_host'', JArray (replicate n host)),
                (''bootstrap_port'', JArray (replicate n (JInt port))),
                (''bootstrap_room'',
                   JArray (map (\<lambda>i. JInt (int (g (Suc i) mod 2 ^ 63))) [0..<n]))]"
      by (simp add: generate_bootstrap_fields_def bootstrap_rooms_draws rng_next_def comp_def)
    have "map_of ?m ''bootstrap_host'' = Some (JArray (replicate n host))"
      "map_of ?m ''bootstrap_port'' = Some (JArray (replicate n (JInt port)))"
      "map_of ?m ''bootstrap_room'' =
         Some (JArray (map (\<lambda>i. JInt (int (g (Suc i) mod 2 ^ 63))) [0..<n]))"
      unfolding f by (simp_all add: map_of_dict_setitem)
    with s bound
    show "\<exists>m. sent = [m, m] \<and>
                map_of m ''bootstrap_host'' = Some (JArray (replicate n host)) \<and>
                map_of m ''bootstrap_port'' = Some (JArray (replicate n (JInt port))) \<and>
                map_of m ''bootstrap_room'' =
                  Some (JArray (map (\<lambda>i. JInt (int (g (Suc i) mod 2 ^ 63))) [0..<n])) \<and>
                (\<forall>i<n. 0 \<le> int (g (Suc i) mod 2 ^ 63) \<and>
                        int (g (Suc i) mod 2 ^ 63) \<le> 2 ^ 63 - 1)"
      by (intro exI [of _ ?m]) simp
  }
qed

theorem bootstrap_injection_shape_witness:
  "(\<exists>m. forwarded_bodies (handler_events
            (handle_generate_request lib0 (net_all 200) lb0 (\<lambda>i. i + 5)
               [[(''text'', JString ''hello'')]] 0)) = [m, m] \<and>
        map_of m ''bootstrap_host'' = Some (JString ''p0'') \<and>
        map_of m ''bootstrap_port'' = Some (JInt 8998) \<and>
        map_of m ''bootstrap_room'' = Some (JInt 6)) \<and>
   (\<exists>m. forwarded_bodies (handler_events
            (handle_generate_request lib0 (net_all 200) lb0 (\<lambda>i. i + 5)
               [[(''text'', JArray [JString ''a'', JString ''b''])]] 0)) = [m, m] \<and>
        map_of m ''bootstrap_host'' = Some (JArray [JString ''p0'', JString ''p0'']) \<and>
        map_of m ''bootstrap_port'' = Some (JArray [JInt 8998, JInt 8998]) \<and>
        map_of m ''bootstrap_room'' = Some (JArray [JInt 6, JInt 7]))"
proof -
  have c: "round_robin_counter lb0 < length (prefill_configs lb0)"
    by (simp add: lb0_def MiniLoadBalancer_init_def)
  have d: "decode_servers lb0 \<noteq> []"
    by (simp add: lb0_def MiniLoadBalancer_init_def)
  have b1: "get_request_batch_size [(''text'', JString ''hello'')] = Inr None"
    by (simp add: get_request_batch_size_def dict_get_def)
  have b2: "get_request_batch_size [(''text'', JArray [JString ''a'', JString ''b''])] =
              Inr (Some 2)"
    by (simp add: get_request_batch_size_def dict_get_def)
  have h0: "hostname_json (urlparse_hostname lib0
              (url (prefill_configs lb0 ! round_robin_counter lb0))) = JString ''p0''"
    "bootstrap_port (prefill_configs lb0 ! round_robin_counter lb0) = 8998"
    by (simp_all add: lb0_def lib0_def MiniLoadBalancer_init_def hostname_json_def)
  have u: "[0..<2] = [0, Suc 0]" by (simp add: upt_rec)
  have r2: "\<And>x :: json. replicate 2 x = [x, x]" by (simp add: numeral_2_eq_2)
  show ?thesis
    using bootstrap_injection_shape [OF c d, of 0 "[[(''text'', JString ''hello'')]]" lib0
        "net_all 200" "\<lambda>i. i + 5"]
      bootstrap_injection_shape [OF c d, of 0
        "[[(''text'', JArray [JString ''a'', JString ''b''])]]" lib0 "net_all 200" "\<lambda>i. i + 5"]
    by (simp add: b1 b2 h0 u r2 del: upt_Suc)
qed

text \<open>
  C10. The frame of the injection, on both paths. Let the selection succeed and, on
  \<open>/generate\<close>, let the batch size be defined. The request sent to both backends is a new
  dictionary object whose items are those of the caller's body with exactly the keys
  \<open>bootstrap_host\<close>, \<open>bootstrap_port\<close> and \<open>bootstrap_room\<close> set: to the values
  computed from the selected prefill entry, the batch size and the generator (on the chat
  path the room is the caller's \<open>req_id\<close> when given), whatever the caller had stored
  under them; every other key has the caller's value. The store grows by that one object
  and the caller's own object is unchanged.
\<close>

theorem bootstrap_injection_frame:
  fixes lib :: library and net :: network and lb :: MiniLoadBalancer and g :: rng
    and h :: heap and request_data :: nat
  assumes c: "round_robin_counter lb < length (prefill_configs lb)"
    and d: "decode_servers lb \<noteq> []"
    and r: "request_data < length h"
  defines "host \<equiv> hostname_json (urlparse_hostname lib
            (url (prefill_configs lb ! round_robin_counter lb)))"
    and "port \<equiv> bootstrap_port (prefill_configs lb ! round_robin_counter lb)"
    and "gen \<equiv> handle_generate_request lib net lb g h request_data"
    and "chat \<equiv> handle_completion_request lib net lb g h request_data"
  shows "(\<forall>b. get_request_batch_size (h ! request_data) = Inr b \<longrightarrow>
           (\<exists>m vh vp vr.
              forwarded_bodies (handler_events gen) = [m, m] \<and>
              handler_heap gen = h @ [m] \<and>
              handler_heap gen ! request_data = h ! request_data \<and>
              fst (generate_bootstrap_fields host port b (rng_next g)) =
                [(''bootstrap_host'', vh), (''bootstrap_port'', vp), (''bootstrap_room'', vr)] \<and>
              map_of m = (map_of (h ! request_data))
                (''bootstrap_host'' \<mapsto> vh, ''bootstrap_port'' \<mapsto> vp,
                 ''bootstrap_room'' \<mapsto> vr))) \<and>
         (\<exists>m. forwarded_bodies (handler_events chat) = [m, m] \<and>
              handler_heap chat = h @ [m] \<and>
              handler_heap chat ! request_data = h ! request_data \<and>
              map_of m = (map_of (h ! request_data))
                (''bootstrap_host'' \<mapsto> host, ''bootstrap_port'' \<mapsto> JInt port,
                 ''bootstrap_room'' \<mapsto>
                   (if dict_get_default (h ! request_data) ''req_id'' JNull \<noteq> JNull
                    then dict_get_default (h ! request_data) ''req_id'' JNull
                    else JInt (int (g 1 mod 2 ^ 63)))))"
proof (intro conjI allI impI)
  fix b
  assume b: "get_request_batch_size (h ! request_data) = Inr b"
  let ?u = "fst (generate_bootstrap_fields host port b (rng_next g))"
  let ?m = "dict_update (h ! request_data) ?u"
  have s: "forwarded_bodies (handler_events gen) = [?m, ?m]"
    unfolding gen_def host_def port_def by (rule handle_generate_request_ok(2) [OF c d r b])
  have hp: "handler_heap gen = h @ [?m]"
    unfolding gen_def host_def port_def by (rule handle_generate_request_ok(1) [OF c d r b])
  have nth: "handler_heap gen ! request_data = h ! request_data"
    using r by (simp add: hp nth_append)
  obtain vh vp vr where
    f: "?u = [(''bootstrap_host'', vh), (''bootstrap_port'', vp), (''bootstrap_room'', vr)]"
    by (cases b) (simp_all add: generate_bootstrap_fields_def split_beta)
  have "map_of ?m = (map_of (h ! request_data))
          (''bootstrap_host'' \<mapsto> vh, ''bootstrap_port'' \<mapsto> vp, ''bootstrap_room'' \<mapsto> vr)"
    unfolding f by (simp add: map_of_dict_setitem)
  with s hp nth f
  show "\<exists>m vh vp vr.
              forwarded_bodies (handler_events gen) = [m, m] \<and>
              handler_heap gen = h @ [m] \<and>
              handler_heap gen ! request_data = h ! request_data \<and>
              fst (generate_bootstrap_fields host port b (rng_next g)) =
                [(''bootstrap_host'', vh), (''bootstrap_port'', vp), (''bootstrap_room'', vr)] \<and>
              map_of m = (map_of (h ! request_data))
                (''bootstrap_host'' \<mapsto> vh, ''bootstrap_port'' \<mapsto> vp,
                 ''bootstrap_room'' \<mapsto> vr)"
    by blast
next
  let ?room = "if dict_get_default (h ! request_data) ''req_id'' JNull \<noteq> JNull
               then dict_get_default (h ! request_data) ''req_id'' JNull
               else JInt (int (g 1 mod 2 ^ 63))"
  let ?m = "dict_update (h ! request_data)
              [(''bootstrap_host'', host), (''bootstrap_port'', JInt port),
               (''bootstrap_room'', ?room)]"
  have s: "forwarded_bodies (handler_events chat) = [?m, ?m]"
    unfolding chat_def host_def port_def by (rule handle_completion_request_ok(2) [OF c d r])
  have hp: "handler_heap chat = h @ [?m]"
    unfolding chat_def host_def port_def by (rule handle_completion_request_ok(1) [OF c d r])
  have nth: "handler_heap chat ! request_data = h ! request_data"
    using r by (simp add: hp nth_append)
  have "map_of ?m = (map_of (h ! request_data))
          (''bootstrap_host'' \<mapsto> host, ''bootstrap_port'' \<mapsto> JInt port,
           ''bootstrap_room'' \<mapsto> ?room)"
    by (simp add: map_of_dict_setitem)
  with s hp nth
  show "\<exists>m. forwarded_bodies (handler_events chat) = [m, m] \<and>
              handler_heap chat = h @ [m] \<and>
              handler_heap chat ! request_data = h ! request_data \<and>
              map_of m = (map_of (h ! request_data))
                (''bootstrap_host'' \<mapsto> host, ''bootstrap_port'' \<mapsto> JInt port,
                 ''bootstrap_room'' \<mapsto> ?room)"
    by blast
qed

theorem bootstrap_injection_frame_witness:
  "\<exists>m. forwarded_bodies (handler_events
           (handle_completion_request lib0 (net_all 200) lb0 (\<lambda>i. i + 5)
              [[(''bootstrap_host'', JString ''mine''), (''stream'', JBool True)]] 0)) =
          [m, m] \<and>
       handler_heap
         (handle_completion_request lib0 (net_all 200) lb0 (\<lambda>i. i + 5)
            [[(''bootstrap_host'', JString ''mine''), (''stream'', JBool True)]] 0) =
         [[(''bootstrap_host'', JString ''mine''), (''stream'', JBool True)], m] \<and>
       map_of m ''bootstrap_host'' = Some (JString ''p0'') \<and>
       map_of m ''bootstrap_port'' = Some (JInt 8998) \<and>
       map_of m ''bootstrap_room'' = Some (JInt 6) \<and>
       map_of m ''stream'' = Some (JBool True)"
proof -
  have c: "round_robin_counter lb0 < length (prefill_configs lb0)"
    by (simp add: lb0_def MiniLoadBalancer_init_def)
  have d: "decode_servers lb0 \<noteq> []"
    by (simp add: lb0_def MiniLoadBalancer_init_def)
  have h0: "hostname_json (urlparse_hostname lib0
              (url (prefill_configs lb0 ! round_robin_counter lb0))) = JString ''p0''"
    "bootstrap_port (prefill_configs lb0 ! round_robin_counter lb0) = 8998"
    by (simp_all add: lb0_def lib0_def MiniLoadBalancer_init_def hostname_json_def)
  from bootstrap_injection_frame [OF c d, of 0
        "[[(''bootstrap_host'', JString ''mine''), (''stream'', JBool True)]]" lib0
        "net_all 200" "\<lambda>i. i + 5"]
  obtain m where
    m: "forwarded_bodies (handler_events
           (handle_completion_request lib0 (net_all 200) lb0 (\<lambda>i. i + 5)
              [[(''bootstrap_host'', JString ''mine''), (''stream'', JBool True)]] 0)) =
          [m, m]"
       "handler_heap
         (handle_completion_request lib0 (net_all 200) lb0 (\<lambda>i. i + 5)
            [[(''bootstrap_host'', JString ''mine''), (''stream'', JBool True)]] 0) =
         [[(''bootstrap_host'', JString ''mine''), (''stream'', JBool True)], m]"
       "map_of m = (map_of [(''bootstrap_host'', JString ''mine''), (''stream'', JBool True)])
                (''bootstrap_host'' \<mapsto> JString ''p0'', ''bootstrap_port'' \<mapsto> JInt 8998,
                 ''bootstrap_room'' \<mapsto> JInt 6)"
    by (auto simp: h0 dict_get_default_def)
  show ?thesis
    by (rule exI [of _ m]) (simp add: m)
qed

end
